theory Spec2Isabelle
  imports Main "HOL-Library.Word"
begin

section \<open>The wire package's KEM key layer (kem.go)\<close>

text \<open>
  The file kem.go wraps a KEM primitive (package kem of nyquist) into the types
  publicKey, privateKey and scheme. The primitive, the entropy stretcher (seec), the hash
  (blake2b), the PEM and base64 codecs and the operating system's files are libraries
  outside the repository: the model reaches them through the values and functions below
  and assumes nothing of them but their Go signatures. Where a property needs more of
  the primitive, it says so as a hypothesis.
\<close>

subsection \<open>Data\<close>

type_synonym byte = "8 word"

text \<open>
  A Go error value is tagged by the package it comes from; \<open>Errorf\<close> carries the message
  that \<open>fmt.Errorf\<close> formats inside kem.go itself.
\<close>

datatype error =
    KemError string
  | OsError string
  | Base64Error nat
  | SeecError string
  | Errorf string

text \<open>A call either returns or panics; a panic carries the error it was raised with.\<close>

datatype 'a outcome = Panics error | Returns 'a

text \<open>
  \<open>kem.PublicKey\<close> and \<open>kem.Keypair\<close> are interfaces: a value carries its own methods.
  kem.go calls \<open>Bytes()\<close> on the former, \<open>Public()\<close> and \<open>MarshalBinary()\<close> on the
  latter; a value is modelled by what these calls return.
\<close>

record kem_PublicKey =
  kempub_Bytes :: "byte list"

record kem_Keypair =
  Public :: kem_PublicKey
  MarshalBinary :: "string + byte list"

text \<open>\<open>kem.KEM\<close>, with the four methods kem.go calls; \<open>'g\<close> is the seeded random stream.\<close>

record 'g KEM =
  kem_String :: string
  ParsePublicKey :: "byte list \<Rightarrow> string + kem_PublicKey"
  ParsePrivateKey :: "byte list \<Rightarrow> string + kem_Keypair"
  GenerateKeypair :: "'g \<Rightarrow> string + kem_Keypair"

record pem_Block =
  Type :: string
  Bytes :: "byte list"

record 'g publicKey =
  pub_publicKey :: kem_PublicKey
  pub_KEM :: "'g KEM"
  pub_hash :: "256 word"

record 'g privateKey =
  priv_privateKey :: kem_Keypair
  priv_KEM :: "'g KEM"

record 'g scheme =
  scheme_KEM :: "'g KEM"

text \<open>
  The libraries kem.go calls besides the primitive. \<open>'w\<close> is the state of the file
  system, \<open>'r\<close> an \<open>io.Reader\<close>. \<open>os_WriteFile\<close> returns its error (if any) and the new
  state; \<open>unicode_ToUpper\<close> is what \<open>strings.ToUpper\<close> does to a string with a byte
  outside ASCII.
\<close>

record ('w, 'r, 'g) env =
  os_ReadFile :: "string \<Rightarrow> 'w \<Rightarrow> string + byte list"
  os_WriteFile :: "string \<Rightarrow> byte list \<Rightarrow> 32 word \<Rightarrow> 'w \<Rightarrow> string option \<times> 'w"
  pem_Decode :: "byte list \<Rightarrow> pem_Block option"
  pem_EncodeToMemory :: "pem_Block \<Rightarrow> byte list"
  base64_StdEncoding_DecodeString :: "byte list \<Rightarrow> nat + byte list"
  blake2b_Sum256 :: "byte list \<Rightarrow> 256 word"
  seec_GenKeyPRPAES :: "'r \<Rightarrow> nat \<Rightarrow> string + 'g"
  unicode_ToUpper :: "string \<Rightarrow> string"

subsection \<open>Helpers\<close>

text \<open>
  \<open>strings.ToUpper\<close>: a string of ASCII bytes has its letters a..z moved to A..Z; any
  other string goes through the Unicode mapping.
\<close>

definition isASCII :: "string \<Rightarrow> bool" where
  "isASCII s = list_all (\<lambda>c. (of_char c :: nat) < 128) s"

definition upper_byte :: "char \<Rightarrow> char" where
  "upper_byte c =
     (if 97 \<le> (of_char c :: nat) \<and> (of_char c :: nat) \<le> 122
      then char_of ((of_char c :: nat) - 32) else c)"

definition strings_ToUpper :: "('w, 'r, 'g) env \<Rightarrow> string \<Rightarrow> string" where
  "strings_ToUpper E s = (if isASCII s then map upper_byte s else unicode_ToUpper E s)"

text \<open>
  Modelled from the spec: \<open>utils.CtIsZero\<close> (core/utils) is not among the sources; the
  guard "checks the key's raw bytes are not all-zero", so it holds of a buffer all of whose
  bytes are zero.
\<close>

definition CtIsZero :: "byte list \<Rightarrow> bool" where
  "CtIsZero b = list_all (\<lambda>v. v = 0) b"

text \<open>The messages of the three \<open>fmt.Errorf\<close> calls.\<close>

definition errDecodePEM :: "string \<Rightarrow> error" where
  "errDecodePEM f = Errorf (''failed to decode PEM file '' @ f)"

definition errWrongKeyType :: "string \<Rightarrow> string \<Rightarrow> error" where
  "errWrongKeyType actual keyType =
     Errorf (''attempted to decode PEM file with wrong key type '' @ actual @ '' != '' @ keyType)"

definition errScrubbedKey :: error where
  "errScrubbedKey = Errorf ''attempted to serialize scrubbed key''"

text \<open>The permission bits of the written file, octal 0600.\<close>

definition mode0600 :: "32 word" where
  "mode0600 = 6 * 64"

subsection \<open>publicKey\<close>

definition publicKey_KeyType :: "('w, 'r, 'g) env \<Rightarrow> 'g publicKey \<Rightarrow> string" where
  "publicKey_KeyType E p = strings_ToUpper E (kem_String (pub_KEM p)) @ '' PUBLIC KEY''"

definition publicKey_Bytes :: "'g publicKey \<Rightarrow> byte list" where
  "publicKey_Bytes p = kempub_Bytes (pub_publicKey p)"

text \<open>
  A method with a pointer receiver that assigns to the object returns the error (if any)
  and the object as the call leaves it.
\<close>

definition publicKey_FromBytes :: "byte list \<Rightarrow> 'g publicKey \<Rightarrow> error option \<times> 'g publicKey" where
  "publicKey_FromBytes b p =
     (case ParsePublicKey (pub_KEM p) b of
        Inl err \<Rightarrow> (Some (KemError err), p)
      | Inr publicKey \<Rightarrow> (None, p\<lparr>pub_publicKey := publicKey\<rparr>))"

definition publicKey_FromPEMFile ::
  "('w, 'r, 'g) env \<Rightarrow> string \<Rightarrow> 'w \<Rightarrow> 'g publicKey \<Rightarrow> error option \<times> 'g publicKey" where
  "publicKey_FromPEMFile E f w p =
     (let keyType = strings_ToUpper E (kem_String (pub_KEM p)) @ '' PUBLIC KEY'' in
      case os_ReadFile E f w of
        Inl err \<Rightarrow> (Some (OsError err), p)
      | Inr buf \<Rightarrow>
          (case pem_Decode E buf of
             None \<Rightarrow> (Some (errDecodePEM f), p)
           | Some blk \<Rightarrow>
               if strings_ToUpper E (Type blk) \<noteq> keyType
               then (Some (errWrongKeyType (Type blk) keyType), p)
               else publicKey_FromBytes (Bytes blk) p))"

definition publicKey_ToPEMFile ::
  "('w, 'r, 'g) env \<Rightarrow> string \<Rightarrow> 'g publicKey \<Rightarrow> 'w \<Rightarrow> error option \<times> 'w" where
  "publicKey_ToPEMFile E f p w =
     (let keyType = strings_ToUpper E (kem_String (pub_KEM p)) @ '' PUBLIC KEY'' in
      if CtIsZero (publicKey_Bytes p) then (Some errScrubbedKey, w)
      else
        let blk = \<lparr>Type = keyType, Bytes = publicKey_Bytes p\<rparr>;
            (err, w') = os_WriteFile E f (pem_EncodeToMemory E blk) mode0600 w
        in (map_option OsError err, w'))"

text \<open>
  \<open>Reset\<close> assigns nil to \<open>p\<close>, the method's own copy of the pointer to the object, and
  returns. The model gives the value of \<open>p\<close> at the end of the call and the object the
  caller still holds, which the assignment does not reach.
\<close>

definition publicKey_Reset :: "'g publicKey \<Rightarrow> 'g publicKey option \<times> 'g publicKey" where
  "publicKey_Reset obj = (None, obj)"

definition publicKey_Equal :: "'g publicKey \<Rightarrow> 'g publicKey \<Rightarrow> bool" where
  "publicKey_Equal p publicKey = (publicKey_Bytes publicKey = publicKey_Bytes p)"

definition publicKey_MarshalBinary :: "'g publicKey \<Rightarrow> error + byte list" where
  "publicKey_MarshalBinary p = Inr (publicKey_Bytes p)"

definition publicKey_UnmarshalBinary :: "byte list \<Rightarrow> 'g publicKey \<Rightarrow> error option \<times> 'g publicKey" where
  "publicKey_UnmarshalBinary data p = publicKey_FromBytes data p"

text \<open>\<open>Sum256\<close> stores the hash in the object and returns it.\<close>

definition publicKey_Sum256 :: "('w, 'r, 'g) env \<Rightarrow> 'g publicKey \<Rightarrow> 256 word \<times> 'g publicKey" where
  "publicKey_Sum256 E p =
     (let p' = p\<lparr>pub_hash := blake2b_Sum256 E (publicKey_Bytes p)\<rparr> in (pub_hash p', p'))"

subsection \<open>privateKey\<close>

definition privateKey_KeyType :: "('w, 'r, 'g) env \<Rightarrow> 'g privateKey \<Rightarrow> string" where
  "privateKey_KeyType E p = strings_ToUpper E (kem_String (priv_KEM p)) @ '' PRIVATE KEY''"

definition privateKey_Bytes :: "'g privateKey \<Rightarrow> byte list outcome" where
  "privateKey_Bytes p =
     (case MarshalBinary (priv_privateKey p) of
        Inl err \<Rightarrow> Panics (KemError err)
      | Inr key \<Rightarrow> Returns key)"

definition privateKey_FromBytes :: "byte list \<Rightarrow> 'g privateKey \<Rightarrow> error option \<times> 'g privateKey" where
  "privateKey_FromBytes b p =
     (case ParsePrivateKey (priv_KEM p) b of
        Inl err \<Rightarrow> (Some (KemError err), p)
      | Inr privateKey \<Rightarrow> (None, p\<lparr>priv_privateKey := privateKey\<rparr>))"

definition privateKey_FromPEMFile ::
  "('w, 'r, 'g) env \<Rightarrow> string \<Rightarrow> 'w \<Rightarrow> 'g privateKey \<Rightarrow> error option \<times> 'g privateKey" where
  "privateKey_FromPEMFile E f w p =
     (let keyType = strings_ToUpper E (kem_String (priv_KEM p)) @ '' PRIVATE KEY'' in
      case os_ReadFile E f w of
        Inl err \<Rightarrow> (Some (OsError err), p)
      | Inr buf \<Rightarrow>
          (case pem_Decode E buf of
             None \<Rightarrow> (Some (errDecodePEM f), p)
           | Some blk \<Rightarrow>
               if strings_ToUpper E (Type blk) \<noteq> keyType
               then (Some (errWrongKeyType (Type blk) keyType), p)
               else privateKey_FromBytes (Bytes blk) p))"

text \<open>\<open>ToPEMFile\<close> calls \<open>p.Bytes()\<close> twice, for the guard and for the block; either may panic.\<close>

definition privateKey_ToPEMFile ::
  "('w, 'r, 'g) env \<Rightarrow> string \<Rightarrow> 'g privateKey \<Rightarrow> 'w \<Rightarrow> (error option \<times> 'w) outcome" where
  "privateKey_ToPEMFile E f p w =
     (let keyType = strings_ToUpper E (kem_String (priv_KEM p)) @ '' PRIVATE KEY'' in
      case privateKey_Bytes p of
        Panics e \<Rightarrow> Panics e
      | Returns b \<Rightarrow>
          if CtIsZero b then Returns (Some errScrubbedKey, w)
          else
            (case privateKey_Bytes p of
               Panics e \<Rightarrow> Panics e
             | Returns b' \<Rightarrow>
                 let blk = \<lparr>Type = keyType, Bytes = b'\<rparr>;
                     (err, w') = os_WriteFile E f (pem_EncodeToMemory E blk) mode0600 w
                 in Returns (map_option OsError err, w')))"

definition privateKey_Reset :: "'g privateKey \<Rightarrow> 'g privateKey option \<times> 'g privateKey" where
  "privateKey_Reset obj = (None, obj)"

definition privateKey_PublicKey :: "('w, 'r, 'g) env \<Rightarrow> 'g privateKey \<Rightarrow> 'g publicKey" where
  "privateKey_PublicKey E p =
     \<lparr>pub_publicKey = Public (priv_privateKey p),
      pub_KEM = priv_KEM p,
      pub_hash = blake2b_Sum256 E (kempub_Bytes (Public (priv_privateKey p)))\<rparr>"

definition privateKey_MarshalBinary :: "'g privateKey \<Rightarrow> (error + byte list) outcome" where
  "privateKey_MarshalBinary p =
     (case privateKey_Bytes p of Panics e \<Rightarrow> Panics e | Returns b \<Rightarrow> Returns (Inr b))"

definition privateKey_UnmarshalBinary :: "byte list \<Rightarrow> 'g privateKey \<Rightarrow> error option \<times> 'g privateKey" where
  "privateKey_UnmarshalBinary data p = privateKey_FromBytes data p"

subsection \<open>scheme\<close>

text \<open>A key built by \<open>PublicKeyFromBytes\<close> has the zero value in its \<open>hash\<close> field.\<close>

definition scheme_PrivateKeyFromBytes :: "'g scheme \<Rightarrow> byte list \<Rightarrow> error + 'g privateKey" where
  "scheme_PrivateKeyFromBytes s b =
     (case ParsePrivateKey (scheme_KEM s) b of
        Inl err \<Rightarrow> Inl (KemError err)
      | Inr privKey \<Rightarrow> Inr \<lparr>priv_privateKey = privKey, priv_KEM = scheme_KEM s\<rparr>)"

definition scheme_PublicKeyFromBytes :: "'g scheme \<Rightarrow> byte list \<Rightarrow> error + 'g publicKey" where
  "scheme_PublicKeyFromBytes s b =
     (case ParsePublicKey (scheme_KEM s) b of
        Inl err \<Rightarrow> Inl (KemError err)
      | Inr pubKey \<Rightarrow> Inr \<lparr>pub_publicKey = pubKey, pub_KEM = scheme_KEM s, pub_hash = 0\<rparr>)"

definition scheme_PrivateKeyFromPemFile ::
  "('w, 'r, 'g) env \<Rightarrow> 'g scheme \<Rightarrow> string \<Rightarrow> 'w \<Rightarrow> error + 'g privateKey" where
  "scheme_PrivateKeyFromPemFile E s f w =
     (let keyType = strings_ToUpper E (kem_String (scheme_KEM s)) @ '' PRIVATE KEY'' in
      case os_ReadFile E f w of
        Inl err \<Rightarrow> Inl (OsError err)
      | Inr buf \<Rightarrow>
          (case pem_Decode E buf of
             None \<Rightarrow> Inl (errDecodePEM f)
           | Some blk \<Rightarrow>
               if strings_ToUpper E (Type blk) \<noteq> keyType
               then Inl (errWrongKeyType (Type blk) keyType)
               else scheme_PrivateKeyFromBytes s (Bytes blk)))"

definition scheme_PublicKeyFromPemFile ::
  "('w, 'r, 'g) env \<Rightarrow> 'g scheme \<Rightarrow> string \<Rightarrow> 'w \<Rightarrow> error + 'g publicKey" where
  "scheme_PublicKeyFromPemFile E s f w =
     (let keyType = strings_ToUpper E (kem_String (scheme_KEM s)) @ '' PUBLIC KEY'' in
      case os_ReadFile E f w of
        Inl err \<Rightarrow> Inl (OsError err)
      | Inr buf \<Rightarrow>
          (case pem_Decode E buf of
             None \<Rightarrow> Inl (errDecodePEM f)
           | Some blk \<Rightarrow>
               if strings_ToUpper E (Type blk) \<noteq> keyType
               then Inl (errWrongKeyType (Type blk) keyType)
               else scheme_PublicKeyFromBytes s (Bytes blk)))"

definition scheme_UnmarshalTextPublicKey ::
  "('w, 'r, 'g) env \<Rightarrow> 'g scheme \<Rightarrow> byte list \<Rightarrow> error + 'g publicKey" where
  "scheme_UnmarshalTextPublicKey E s b =
     (case base64_StdEncoding_DecodeString E b of
        Inl err \<Rightarrow> Inl (Base64Error err)
      | Inr raw \<Rightarrow> scheme_PublicKeyFromBytes s raw)"

definition scheme_UnmarshalTextPrivateKey ::
  "('w, 'r, 'g) env \<Rightarrow> 'g scheme \<Rightarrow> byte list \<Rightarrow> error + 'g privateKey" where
  "scheme_UnmarshalTextPrivateKey E s b =
     (case base64_StdEncoding_DecodeString E b of
        Inl err \<Rightarrow> Inl (Base64Error err)
      | Inr raw \<Rightarrow> scheme_PrivateKeyFromBytes s raw)"

definition scheme_UnmarshalBinaryPublicKey :: "'g scheme \<Rightarrow> byte list \<Rightarrow> error + 'g publicKey" where
  "scheme_UnmarshalBinaryPublicKey s b = scheme_PublicKeyFromBytes s b"

definition scheme_GenerateKeypair ::
  "('w, 'r, 'g) env \<Rightarrow> 'g scheme \<Rightarrow> 'r \<Rightarrow> ('g privateKey \<times> 'g publicKey) outcome" where
  "scheme_GenerateKeypair E s r =
     (case seec_GenKeyPRPAES E r 256 of
        Inl err \<Rightarrow> Panics (SeecError err)
      | Inr seecGenRand \<Rightarrow>
          (case GenerateKeypair (scheme_KEM s) seecGenRand of
             Inl err \<Rightarrow> Panics (KemError err)
           | Inr k \<Rightarrow>
               let privk = \<lparr>priv_privateKey = k, priv_KEM = scheme_KEM s\<rparr>
               in Returns (privk, privateKey_PublicKey E privk)))"

subsection \<open>Properties of the primitive that the key layer relies on\<close>



text \<open>Every keypair the primitive parses or generates has a serialisation.\<close>

definition kem_keypairs_serialise :: "'g KEM \<Rightarrow> bool" where
  "kem_keypairs_serialise K =
     ((\<forall>b k. ParsePrivateKey K b = Inr k \<longrightarrow> (\<exists>x. MarshalBinary k = Inr x)) \<and>
      (\<forall>g k. GenerateKeypair K g = Inr k \<longrightarrow> (\<exists>x. MarshalBinary k = Inr x)))"

subsection \<open>A small instance\<close>

text \<open>
  Stand-ins for the libraries, small enough to compute with: a primitive with two-byte
  public keys and four-byte keypairs (the public half last), a codec that writes the type
  tag, a zero byte and the key, and a file system that is a map from paths to contents and
  permission bits.
\<close>

definition demo_KEM :: "byte list KEM" where
  "demo_KEM =
     \<lparr>kem_String = ''Kyber768-X25519'',
      ParsePublicKey = (\<lambda>b. if length b = 2 then Inr \<lparr>kempub_Bytes = b\<rparr>
         else Inl ''invalid public key size''),
      ParsePrivateKey = (\<lambda>b. if length b = 4
         then Inr \<lparr>Public = \<lparr>kempub_Bytes = drop 2 b\<rparr>, MarshalBinary = Inr b\<rparr>
         else Inl ''invalid private key size''),
      GenerateKeypair = (\<lambda>g. if length g < 4 then Inl ''short read''
         else Inr \<lparr>Public = \<lparr>kempub_Bytes = drop 2 (take 4 g)\<rparr>,
                   MarshalBinary = Inr (take 4 g)\<rparr>)\<rparr>"

definition other_KEM :: "byte list KEM" where
  "other_KEM = demo_KEM\<lparr>kem_String := ''X25519''\<rparr>"

definition demo_Encode :: "pem_Block \<Rightarrow> byte list" where
  "demo_Encode blk = map of_char (Type blk) @ [0] @ Bytes blk"

definition demo_Decode :: "byte list \<Rightarrow> pem_Block option" where
  "demo_Decode buf =
     (if 0 \<in> set buf
      then Some \<lparr>Type = map (\<lambda>v. char_of (unat v)) (takeWhile (\<lambda>v. v \<noteq> 0) buf),
                 Bytes = tl (dropWhile (\<lambda>v. v \<noteq> 0) buf)\<rparr>
      else None)"

type_synonym demo_files = "string \<Rightarrow> (byte list \<times> 32 word) option"

definition demo_env :: "(demo_files, byte list, byte list) env" where
  "demo_env =
     \<lparr>os_ReadFile = (\<lambda>f w. case w f of None \<Rightarrow> Inl ''no such file or directory''
                              | Some (d, m) \<Rightarrow> Inr d),
      os_WriteFile = (\<lambda>f d m w. if f = [] then (Some ''no such file or directory'', w)
                                 else (None, w(f \<mapsto> (d, m)))),
      pem_Decode = demo_Decode,
      pem_EncodeToMemory = demo_Encode,
      base64_StdEncoding_DecodeString = (\<lambda>b. if list_all (\<lambda>v. v < 128) b then Inr b
         else Inl (length (takeWhile (\<lambda>v. v < 128) b))),
      blake2b_Sum256 = (\<lambda>b. of_nat (length b)),
      seec_GenKeyPRPAES = (\<lambda>r n. if r = [] then Inl ''EOF'' else Inr r),
      unicode_ToUpper = (\<lambda>s. s)\<rparr>"

definition demo_scheme :: "byte list scheme" where
  "demo_scheme = \<lparr>scheme_KEM = demo_KEM\<rparr>"

definition demo_pub :: "byte list publicKey" where
  "demo_pub = \<lparr>pub_publicKey = \<lparr>kempub_Bytes = [1, 2]\<rparr>, pub_KEM = demo_KEM, pub_hash = 0\<rparr>"

definition demo_priv :: "byte list privateKey" where
  "demo_priv =
     \<lparr>priv_privateKey = \<lparr>Public = \<lparr>kempub_Bytes = [1, 2]\<rparr>, MarshalBinary = Inr [7, 8, 1, 2]\<rparr>,
      priv_KEM = demo_KEM\<rparr>"

text \<open>A public key whose bytes are zero, and a keypair whose serialiser fails.\<close>

definition zero_pub :: "byte list publicKey" where
  "zero_pub = \<lparr>pub_publicKey = \<lparr>kempub_Bytes = [0, 0]\<rparr>, pub_KEM = demo_KEM, pub_hash = 0\<rparr>"

definition zero_priv :: "byte list privateKey" where
  "zero_priv =
     \<lparr>priv_privateKey = \<lparr>Public = \<lparr>kempub_Bytes = [0, 0]\<rparr>, MarshalBinary = Inr [0, 0, 0, 0]\<rparr>,
      priv_KEM = demo_KEM\<rparr>"

definition broken_priv :: "byte list privateKey" where
  "broken_priv =
     \<lparr>priv_privateKey = \<lparr>Public = \<lparr>kempub_Bytes = [1, 2]\<rparr>, MarshalBinary = Inl ''dropped private key''\<rparr>,
      priv_KEM = demo_KEM\<rparr>"





definition pubTagged :: "byte list" where
  "pubTagged = demo_Encode \<lparr>Type = ''KYBER768-X25519 PUBLIC KEY'', Bytes = [1, 2]\<rparr>"

definition privTagged :: "byte list" where
  "privTagged = demo_Encode \<lparr>Type = ''Kyber768-X25519 private key'', Bytes = [7, 8, 1, 2]\<rparr>"

section \<open>Properties\<close>

subsection \<open>Facts used more than once\<close>

lemma CtIsZero_iff: "CtIsZero b \<longleftrightarrow> set b \<subseteq> {0}"
  by (auto simp: CtIsZero_def list_all_iff)

lemma mode0600_octal: "mode0600 = 384"
  by (simp add: mode0600_def)

lemma demo_env_sel:
  "os_ReadFile demo_env f w =
     (case w f of None \<Rightarrow> Inl ''no such file or directory'' | Some (d, m) \<Rightarrow> Inr d)"
  "os_WriteFile demo_env f d m w =
     (if f = [] then (Some ''no such file or directory'', w) else (None, w(f \<mapsto> (d, m))))"
  "pem_Decode demo_env = demo_Decode"
  "pem_EncodeToMemory demo_env = demo_Encode"
  "base64_StdEncoding_DecodeString demo_env b =
     (if list_all (\<lambda>v. v < 128) b then Inr b else Inl (length (takeWhile (\<lambda>v. v < 128) b)))"
  "blake2b_Sum256 demo_env b = of_nat (length b)"
  "seec_GenKeyPRPAES demo_env r n = (if r = [] then Inl ''EOF'' else Inr r)"
  by (simp_all add: demo_env_def)

lemma demo_name_upper: "strings_ToUpper demo_env ''Kyber768-X25519'' = ''KYBER768-X25519''"
  by (simp add: strings_ToUpper_def isASCII_def upper_byte_def char_of_def bit_0)

lemma demo_parse_pub: "scheme_PublicKeyFromBytes demo_scheme [1, 2] = Inr demo_pub"
  by (simp add: scheme_PublicKeyFromBytes_def demo_scheme_def demo_KEM_def demo_pub_def)

lemma demo_parse_priv: "scheme_PrivateKeyFromBytes demo_scheme [7, 8, 1, 2] = Inr demo_priv"
  by (simp add: scheme_PrivateKeyFromBytes_def demo_scheme_def demo_KEM_def demo_priv_def)

lemma publicKey_Reset_object: "snd (publicKey_Reset p) = p"
  by (simp add: publicKey_Reset_def)

lemma privateKey_Reset_object: "snd (privateKey_Reset p) = p"
  by (simp add: privateKey_Reset_def)

lemma publicKey_ToPEMFile_nonzero:
  "\<not> CtIsZero (publicKey_Bytes p) \<Longrightarrow>
   publicKey_ToPEMFile E f p w =
     (case os_WriteFile E f
        (pem_EncodeToMemory E \<lparr>Type = publicKey_KeyType E p, Bytes = publicKey_Bytes p\<rparr>)
        mode0600 w of (err, w') \<Rightarrow> (map_option OsError err, w'))"
  by (simp add: publicKey_ToPEMFile_def publicKey_KeyType_def Let_def)

lemma privateKey_ToPEMFile_nonzero:
  "privateKey_Bytes q = Returns b \<Longrightarrow> \<not> CtIsZero b \<Longrightarrow>
   privateKey_ToPEMFile E f q w =
     Returns (case os_WriteFile E f
        (pem_EncodeToMemory E \<lparr>Type = privateKey_KeyType E q, Bytes = b\<rparr>)
        mode0600 w of (err, w') \<Rightarrow> (map_option OsError err, w'))"
  by (simp add: privateKey_ToPEMFile_def privateKey_KeyType_def Let_def split: prod.splits)

subsection \<open>Reset and the scrubbed-key guard\<close>

text \<open>
  C1. The claim: after \<open>Reset()\<close>, \<open>ToPEMFile\<close> on that key fails with the scrubbed-key
  error. The code, on a public key parsed from the bytes 1, 2 and on a private key parsed
  from 7, 8, 1, 2: after \<open>Reset\<close> the key's bytes are what they were, the guard does not
  fire, and \<open>ToPEMFile\<close> writes the key to the file and returns no error.
\<close>

theorem Reset_then_ToPEMFile_writes_key:
  "scheme_PublicKeyFromBytes demo_scheme [1, 2] = Inr demo_pub \<and>
   publicKey_Bytes (snd (publicKey_Reset demo_pub)) = [1, 2] \<and>
   publicKey_ToPEMFile demo_env ''pub.pem'' (snd (publicKey_Reset demo_pub)) Map.empty =
     (None, [''pub.pem'' \<mapsto> (pubTagged, 384)]) \<and>
   scheme_PrivateKeyFromBytes demo_scheme [7, 8, 1, 2] = Inr demo_priv \<and>
   privateKey_Bytes (snd (privateKey_Reset demo_priv)) = Returns [7, 8, 1, 2] \<and>
   privateKey_ToPEMFile demo_env ''priv.pem'' (snd (privateKey_Reset demo_priv)) Map.empty =
     Returns (None, [''priv.pem'' \<mapsto>
       (demo_Encode \<lparr>Type = ''KYBER768-X25519 PRIVATE KEY'', Bytes = [7, 8, 1, 2]\<rparr>, 384)])"
proof -
  have pub_bytes: "publicKey_Bytes demo_pub = [1, 2]"
    by (simp add: publicKey_Bytes_def demo_pub_def)
  have priv_bytes: "privateKey_Bytes demo_priv = Returns [7, 8, 1, 2]"
    by (simp add: privateKey_Bytes_def demo_priv_def)
  have pub_type: "publicKey_KeyType demo_env demo_pub = ''KYBER768-X25519 PUBLIC KEY''"
    using demo_name_upper by (simp add: publicKey_KeyType_def demo_pub_def demo_KEM_def)
  have priv_type: "privateKey_KeyType demo_env demo_priv = ''KYBER768-X25519 PRIVATE KEY''"
    using demo_name_upper by (simp add: privateKey_KeyType_def demo_priv_def demo_KEM_def)
  have pub_write:
    "publicKey_ToPEMFile demo_env ''pub.pem'' demo_pub Map.empty =
       (None, [''pub.pem'' \<mapsto> (pubTagged, 384)])"
    by (subst publicKey_ToPEMFile_nonzero)
      (simp_all add: pub_bytes pub_type CtIsZero_def mode0600_octal pubTagged_def demo_env_sel)
  have priv_write:
    "privateKey_ToPEMFile demo_env ''priv.pem'' demo_priv Map.empty =
       Returns (None, [''priv.pem'' \<mapsto>
         (demo_Encode \<lparr>Type = ''KYBER768-X25519 PRIVATE KEY'', Bytes = [7, 8, 1, 2]\<rparr>, 384)])"
    by (subst privateKey_ToPEMFile_nonzero [OF priv_bytes])
      (simp_all add: priv_type CtIsZero_def mode0600_octal demo_env_sel)
  show ?thesis
    by (simp add: publicKey_Reset_object privateKey_Reset_object demo_parse_pub demo_parse_priv
        pub_bytes priv_bytes pub_write priv_write)
qed

subsection \<open>Loading a PEM file with the wrong type tag\<close>

lemma demo_Decode_pubTagged:
  "demo_Decode pubTagged = Some \<lparr>Type = ''KYBER768-X25519 PUBLIC KEY'', Bytes = [1, 2]\<rparr>"
  by (simp add: demo_Decode_def pubTagged_def demo_Encode_def char_of_def bit_0)

lemma demo_Decode_privTagged:
  "demo_Decode privTagged = Some \<lparr>Type = ''Kyber768-X25519 private key'', Bytes = [7, 8, 1, 2]\<rparr>"
  by (simp add: demo_Decode_def privTagged_def demo_Encode_def char_of_def bit_0)

lemma upper_private_tag:
  "strings_ToUpper demo_env ''Kyber768-X25519 private key'' = ''KYBER768-X25519 PRIVATE KEY''"
  by (simp add: strings_ToUpper_def isASCII_def upper_byte_def char_of_def bit_0)

lemma upper_public_tag:
  "strings_ToUpper demo_env ''KYBER768-X25519 PUBLIC KEY'' = ''KYBER768-X25519 PUBLIC KEY''"
  by (simp add: strings_ToUpper_def isASCII_def upper_byte_def)

text \<open>
  C2. When the file is read and a PEM block is decoded from it, and the block's type tag
  in upper case is not the upper-cased algorithm name followed by PUBLIC KEY (for the
  public-key loader) or PRIVATE KEY (for the private-key loader), the loader returns
  no key but the error whose message holds the block's tag and the expected tag. In
  particular the private-key loader so rejects a block whose tag, in upper case, is the
  public-key tag.
\<close>

theorem FromPemFile_wrong_key_type:
  assumes "os_ReadFile E f w = Inr buf" and "pem_Decode E buf = Some blk"
  shows "(strings_ToUpper E (Type blk) \<noteq> strings_ToUpper E (kem_String (scheme_KEM s)) @ '' PUBLIC KEY'' \<longrightarrow>
          scheme_PublicKeyFromPemFile E s f w =
            Inl (Errorf (''attempted to decode PEM file with wrong key type '' @ Type blk @ '' != '' @
                         strings_ToUpper E (kem_String (scheme_KEM s)) @ '' PUBLIC KEY''))) \<and>
         (strings_ToUpper E (Type blk) \<noteq> strings_ToUpper E (kem_String (scheme_KEM s)) @ '' PRIVATE KEY'' \<longrightarrow>
          scheme_PrivateKeyFromPemFile E s f w =
            Inl (Errorf (''attempted to decode PEM file with wrong key type '' @ Type blk @ '' != '' @
                         strings_ToUpper E (kem_String (scheme_KEM s)) @ '' PRIVATE KEY''))) \<and>
         (strings_ToUpper E (Type blk) = strings_ToUpper E (kem_String (scheme_KEM s)) @ '' PUBLIC KEY'' \<longrightarrow>
          scheme_PrivateKeyFromPemFile E s f w =
            Inl (Errorf (''attempted to decode PEM file with wrong key type '' @ Type blk @ '' != '' @
                         strings_ToUpper E (kem_String (scheme_KEM s)) @ '' PRIVATE KEY'')))"
  using assms
  by (simp add: scheme_PublicKeyFromPemFile_def scheme_PrivateKeyFromPemFile_def
      errWrongKeyType_def Let_def)

theorem FromPemFile_wrong_key_type_witness:
  "scheme_PrivateKeyFromPemFile demo_env demo_scheme ''key.pem'' [''key.pem'' \<mapsto> (pubTagged, 384)] =
     Inl (Errorf ''attempted to decode PEM file with wrong key type KYBER768-X25519 PUBLIC KEY != KYBER768-X25519 PRIVATE KEY'') \<and>
   scheme_PublicKeyFromPemFile demo_env demo_scheme ''key.pem'' [''key.pem'' \<mapsto> (privTagged, 384)] =
     Inl (Errorf ''attempted to decode PEM file with wrong key type Kyber768-X25519 private key != KYBER768-X25519 PUBLIC KEY'')"
proof -
  have name: "strings_ToUpper demo_env (kem_String (scheme_KEM demo_scheme)) = ''KYBER768-X25519''"
    using demo_name_upper by (simp add: demo_scheme_def demo_KEM_def)
  have rd_pub: "os_ReadFile demo_env ''key.pem'' [''key.pem'' \<mapsto> (pubTagged, 384)] = Inr pubTagged"
    by (simp add: demo_env_sel)
  have rd_priv: "os_ReadFile demo_env ''key.pem'' [''key.pem'' \<mapsto> (privTagged, 384)] = Inr privTagged"
    by (simp add: demo_env_sel)
  have dec_pub: "pem_Decode demo_env pubTagged = Some \<lparr>Type = ''KYBER768-X25519 PUBLIC KEY'', Bytes = [1, 2]\<rparr>"
    by (simp add: demo_env_sel demo_Decode_pubTagged)
  have dec_priv: "pem_Decode demo_env privTagged = Some \<lparr>Type = ''Kyber768-X25519 private key'', Bytes = [7, 8, 1, 2]\<rparr>"
    by (simp add: demo_env_sel demo_Decode_privTagged)
  from FromPemFile_wrong_key_type [OF rd_pub dec_pub, of demo_scheme]
  have one: "scheme_PrivateKeyFromPemFile demo_env demo_scheme ''key.pem'' [''key.pem'' \<mapsto> (pubTagged, 384)] =
     Inl (Errorf ''attempted to decode PEM file with wrong key type KYBER768-X25519 PUBLIC KEY != KYBER768-X25519 PRIVATE KEY'')"
    by (simp add: name upper_public_tag)
  from FromPemFile_wrong_key_type [OF rd_priv dec_priv, of demo_scheme]
  have two: "scheme_PublicKeyFromPemFile demo_env demo_scheme ''key.pem'' [''key.pem'' \<mapsto> (privTagged, 384)] =
     Inl (Errorf ''attempted to decode PEM file with wrong key type Kyber768-X25519 private key != KYBER768-X25519 PUBLIC KEY'')"
    by (simp add: name upper_private_tag)
  from one two show ?thesis by simp
qed

text \<open>The methods \<open>FromPEMFile\<close> of the keys do the same and leave the key as it was.\<close>

lemma key_FromPEMFile_wrong_key_type:
  assumes "os_ReadFile E f w = Inr buf" and "pem_Decode E buf = Some blk"
  shows "strings_ToUpper E (Type blk) \<noteq> publicKey_KeyType E p \<Longrightarrow>
           publicKey_FromPEMFile E f w p = (Some (errWrongKeyType (Type blk) (publicKey_KeyType E p)), p)"
    and "strings_ToUpper E (Type blk) \<noteq> privateKey_KeyType E q \<Longrightarrow>
           privateKey_FromPEMFile E f w q = (Some (errWrongKeyType (Type blk) (privateKey_KeyType E q)), q)"
  using assms
  by (simp_all add: publicKey_FromPEMFile_def privateKey_FromPEMFile_def
      publicKey_KeyType_def privateKey_KeyType_def Let_def)

subsection \<open>Writing a PEM file\<close>

text \<open>
  C3. A key whose raw bytes are all zero: \<open>ToPEMFile\<close> returns the scrubbed-key error and
  the file system is as it was, whatever \<open>os.WriteFile\<close> would do. A key with a non-zero
  byte: \<open>ToPEMFile\<close> is one call of \<open>os.WriteFile\<close>, on the path given, with the PEM
  encoding of the block made of the key's type tag and its bytes, and with the permission
  bits 0600 (384). For a private key this is said of a key whose \<open>Bytes()\<close> returns; where
  \<open>Bytes()\<close> panics, so does \<open>ToPEMFile\<close>, before any write.
\<close>

theorem ToPEMFile_guard_then_write:
  "(set (publicKey_Bytes p) \<subseteq> {0} \<longrightarrow>
      publicKey_ToPEMFile E f p w = (Some (Errorf ''attempted to serialize scrubbed key''), w)) \<and>
   (\<not> set (publicKey_Bytes p) \<subseteq> {0} \<longrightarrow>
      publicKey_ToPEMFile E f p w =
        (case os_WriteFile E f
           (pem_EncodeToMemory E
              \<lparr>Type = strings_ToUpper E (kem_String (pub_KEM p)) @ '' PUBLIC KEY'',
               Bytes = publicKey_Bytes p\<rparr>) 384 w
         of (err, w') \<Rightarrow> (map_option OsError err, w'))) \<and>
   (privateKey_Bytes q = Returns b \<and> set b \<subseteq> {0} \<longrightarrow>
      privateKey_ToPEMFile E f q w = Returns (Some (Errorf ''attempted to serialize scrubbed key''), w)) \<and>
   (privateKey_Bytes q = Returns b \<and> \<not> set b \<subseteq> {0} \<longrightarrow>
      privateKey_ToPEMFile E f q w =
        Returns (case os_WriteFile E f
           (pem_EncodeToMemory E
              \<lparr>Type = strings_ToUpper E (kem_String (priv_KEM q)) @ '' PRIVATE KEY'',
               Bytes = b\<rparr>) 384 w
         of (err, w') \<Rightarrow> (map_option OsError err, w'))) \<and>
   (privateKey_Bytes q = Panics e \<longrightarrow> privateKey_ToPEMFile E f q w = Panics e)"
proof (intro conjI impI)
  assume "privateKey_Bytes q = Panics e"
  then show "privateKey_ToPEMFile E f q w = Panics e"
    by (simp add: privateKey_ToPEMFile_def)
next
  assume "set (publicKey_Bytes p) \<subseteq> {0}"
  then show "publicKey_ToPEMFile E f p w = (Some (Errorf ''attempted to serialize scrubbed key''), w)"
    by (simp add: publicKey_ToPEMFile_def CtIsZero_iff errScrubbedKey_def)
next
  assume "\<not> set (publicKey_Bytes p) \<subseteq> {0}"
  then have "\<not> CtIsZero (publicKey_Bytes p)"
    by (simp add: CtIsZero_iff)
  from publicKey_ToPEMFile_nonzero [OF this]
  show "publicKey_ToPEMFile E f p w =
        (case os_WriteFile E f
           (pem_EncodeToMemory E
              \<lparr>Type = strings_ToUpper E (kem_String (pub_KEM p)) @ '' PUBLIC KEY'',
               Bytes = publicKey_Bytes p\<rparr>) 384 w
         of (err, w') \<Rightarrow> (map_option OsError err, w'))"
    by (simp add: publicKey_KeyType_def mode0600_octal)
next
  assume "privateKey_Bytes q = Returns b \<and> set b \<subseteq> {0}"
  then show "privateKey_ToPEMFile E f q w = Returns (Some (Errorf ''attempted to serialize scrubbed key''), w)"
    by (simp add: privateKey_ToPEMFile_def CtIsZero_iff errScrubbedKey_def)
next
  assume a: "privateKey_Bytes q = Returns b \<and> \<not> set b \<subseteq> {0}"
  then have "\<not> CtIsZero b"
    by (simp add: CtIsZero_iff)
  from privateKey_ToPEMFile_nonzero [OF conjunct1 [OF a] this]
  show "privateKey_ToPEMFile E f q w =
        Returns (case os_WriteFile E f
           (pem_EncodeToMemory E
              \<lparr>Type = strings_ToUpper E (kem_String (priv_KEM q)) @ '' PRIVATE KEY'',
               Bytes = b\<rparr>) 384 w
         of (err, w') \<Rightarrow> (map_option OsError err, w'))"
    by (simp add: privateKey_KeyType_def mode0600_octal)
qed

theorem ToPEMFile_guard_then_write_witness:
  "publicKey_ToPEMFile demo_env ''k.pem'' zero_pub Map.empty =
     (Some (Errorf ''attempted to serialize scrubbed key''), Map.empty) \<and>
   publicKey_ToPEMFile demo_env ''k.pem'' demo_pub Map.empty =
     (None, [''k.pem'' \<mapsto> (pubTagged, 384)]) \<and>
   privateKey_ToPEMFile demo_env ''k.pem'' zero_priv Map.empty =
     Returns (Some (Errorf ''attempted to serialize scrubbed key''), Map.empty) \<and>
   privateKey_ToPEMFile demo_env ''k.pem'' demo_priv Map.empty =
     Returns (None, [''k.pem'' \<mapsto>
       (demo_Encode \<lparr>Type = ''KYBER768-X25519 PRIVATE KEY'', Bytes = [7, 8, 1, 2]\<rparr>, 384)]) \<and>
   privateKey_ToPEMFile demo_env ''k.pem'' broken_priv Map.empty =
     Panics (KemError ''dropped private key'')"
proof -
  have bb: "privateKey_Bytes broken_priv = Panics (KemError ''dropped private key'')"
    by (simp add: privateKey_Bytes_def broken_priv_def)
  from ToPEMFile_guard_then_write
    [where q = broken_priv and e = "KemError ''dropped private key''" and E = demo_env
       and f = "''k.pem''" and w = Map.empty and p = demo_pub and b = "[]"] bb
  have p: "privateKey_ToPEMFile demo_env ''k.pem'' broken_priv Map.empty =
     Panics (KemError ''dropped private key'')"
    by blast
  have name: "strings_ToUpper demo_env (kem_String demo_KEM) = ''KYBER768-X25519''"
    using demo_name_upper by (simp add: demo_KEM_def)
  have zb: "publicKey_Bytes zero_pub = [0, 0]" "privateKey_Bytes zero_priv = Returns [0, 0, 0, 0]"
    by (simp_all add: publicKey_Bytes_def zero_pub_def privateKey_Bytes_def zero_priv_def)
  have db: "publicKey_Bytes demo_pub = [1, 2]" "privateKey_Bytes demo_priv = Returns [7, 8, 1, 2]"
    by (simp_all add: publicKey_Bytes_def demo_pub_def privateKey_Bytes_def demo_priv_def)
  have kems: "pub_KEM demo_pub = demo_KEM" "priv_KEM demo_priv = demo_KEM"
    by (simp_all add: demo_pub_def demo_priv_def)
  from ToPEMFile_guard_then_write [of zero_pub demo_env "''k.pem''" Map.empty zero_priv "[0, 0, 0, 0]"]
  have z: "publicKey_ToPEMFile demo_env ''k.pem'' zero_pub Map.empty =
       (Some (Errorf ''attempted to serialize scrubbed key''), Map.empty)"
    "privateKey_ToPEMFile demo_env ''k.pem'' zero_priv Map.empty =
       Returns (Some (Errorf ''attempted to serialize scrubbed key''), Map.empty)"
    by (simp_all add: zb)
  from ToPEMFile_guard_then_write [of demo_pub demo_env "''k.pem''" Map.empty demo_priv "[7, 8, 1, 2]"]
  have d: "publicKey_ToPEMFile demo_env ''k.pem'' demo_pub Map.empty =
       (None, [''k.pem'' \<mapsto> (pubTagged, 384)])"
    "privateKey_ToPEMFile demo_env ''k.pem'' demo_priv Map.empty =
       Returns (None, [''k.pem'' \<mapsto>
         (demo_Encode \<lparr>Type = ''KYBER768-X25519 PRIVATE KEY'', Bytes = [7, 8, 1, 2]\<rparr>, 384)])"
    by (simp_all add: db kems name demo_env_sel pubTagged_def)
  from z d p show ?thesis by simp
qed

subsection \<open>Equality of public keys\<close>

text \<open>
  C4. \<open>a.Equal(b)\<close> is true exactly when \<open>a.Bytes()\<close> and \<open>b.Bytes()\<close> are the same byte
  sequence. The algorithm of either key has no part in it: replacing it changes nothing,
  and there are two keys of differently named algorithms that are equal.
\<close>

theorem publicKey_Equal_bytes_only:
  "(publicKey_Equal a b \<longleftrightarrow> publicKey_Bytes a = publicKey_Bytes b) \<and>
   publicKey_Equal (a\<lparr>pub_KEM := K\<rparr>) (b\<lparr>pub_KEM := K'\<rparr>) = publicKey_Equal a b \<and>
   kem_String (pub_KEM (demo_pub\<lparr>pub_KEM := other_KEM\<rparr>)) \<noteq> kem_String (pub_KEM demo_pub) \<and>
   publicKey_Equal (demo_pub\<lparr>pub_KEM := other_KEM\<rparr>) demo_pub"
  by (auto simp: publicKey_Equal_def publicKey_Bytes_def demo_pub_def other_KEM_def demo_KEM_def)

subsection \<open>Round trip through bytes\<close>

lemma scheme_PublicKeyFromBytes_KEM:
  "scheme_PublicKeyFromBytes s b = Inr pub \<Longrightarrow> pub_KEM pub = scheme_KEM s"
  by (auto simp: scheme_PublicKeyFromBytes_def split: sum.splits)

lemma scheme_PrivateKeyFromBytes_KEM:
  "scheme_PrivateKeyFromBytes s b = Inr priv \<Longrightarrow> priv_KEM priv = scheme_KEM s"
  by (auto simp: scheme_PrivateKeyFromBytes_def split: sum.splits)

lemma scheme_GenerateKeypair_Returns:
  "scheme_GenerateKeypair E s r = Returns (priv, pub) \<Longrightarrow>
   \<exists>g k. seec_GenKeyPRPAES E r 256 = Inr g \<and> GenerateKeypair (scheme_KEM s) g = Inr k \<and>
         priv = \<lparr>priv_privateKey = k, priv_KEM = scheme_KEM s\<rparr> \<and>
         pub = privateKey_PublicKey E priv"
  by (auto simp: scheme_GenerateKeypair_def Let_def split: sum.splits)

lemma demo_generate:
  "scheme_GenerateKeypair demo_env demo_scheme [7, 8, 1, 2, 9] =
     Returns (demo_priv, demo_pub\<lparr>pub_hash := 2\<rparr>)"
  by (simp add: scheme_GenerateKeypair_def demo_env_sel demo_scheme_def demo_KEM_def
      privateKey_PublicKey_def demo_priv_def demo_pub_def)









subsection \<open>The hash of a public key\<close>

text \<open>
  C6. \<open>Sum256()\<close> returns the Blake2b-256 hash of the key's raw bytes, a 256-bit value.
  It leaves the raw bytes as they are, so a second call returns the same value as the
  first; more generally, so does a call on any key with the same raw bytes.
\<close>

theorem Sum256_same_twice:
  "fst (publicKey_Sum256 E p) = blake2b_Sum256 E (publicKey_Bytes p) \<and>
   publicKey_Bytes (snd (publicKey_Sum256 E p)) = publicKey_Bytes p \<and>
   fst (publicKey_Sum256 E (snd (publicKey_Sum256 E p))) = fst (publicKey_Sum256 E p) \<and>
   (publicKey_Bytes q = publicKey_Bytes p \<longrightarrow>
      fst (publicKey_Sum256 E q) = fst (publicKey_Sum256 E p))"
  by (simp add: publicKey_Sum256_def publicKey_Bytes_def Let_def)

theorem Sum256_same_twice_witness:
  "publicKey_Bytes (demo_pub\<lparr>pub_KEM := other_KEM\<rparr>) = publicKey_Bytes demo_pub \<and>
   fst (publicKey_Sum256 demo_env (demo_pub\<lparr>pub_KEM := other_KEM\<rparr>)) = 2 \<and>
   fst (publicKey_Sum256 demo_env demo_pub) = 2"
proof -
  have same: "publicKey_Bytes (demo_pub\<lparr>pub_KEM := other_KEM\<rparr>) = publicKey_Bytes demo_pub"
    by (simp add: publicKey_Bytes_def)
  have "publicKey_Bytes demo_pub = [1, 2]"
    by (simp add: publicKey_Bytes_def demo_pub_def)
  with Sum256_same_twice [of demo_env demo_pub "demo_pub\<lparr>pub_KEM := other_KEM\<rparr>"] same
  show ?thesis by (simp add: demo_env_sel)
qed

subsection \<open>Key generation\<close>

text \<open>
  C7. \<open>GenerateKeypair\<close> panics with the error of \<open>seec.GenKeyPRPAES\<close> when seeding
  fails, and with the error of the primitive's \<open>GenerateKeypair\<close> when generation fails;
  in neither case does it return. When it returns, both steps succeeded, the private key
  holds the generated keypair and the scheme's algorithm, and the public key is the private
  key's \<open>PublicKey()\<close>: the keypair's public part, the same algorithm, and the hash of the
  public part's bytes.
\<close>

theorem GenerateKeypair_panics_or_complete:
  "(seec_GenKeyPRPAES E r 256 = Inl e \<longrightarrow>
      scheme_GenerateKeypair E s r = Panics (SeecError e)) \<and>
   (seec_GenKeyPRPAES E r 256 = Inr g \<and> GenerateKeypair (scheme_KEM s) g = Inl e' \<longrightarrow>
      scheme_GenerateKeypair E s r = Panics (KemError e')) \<and>
   (scheme_GenerateKeypair E s r = Returns (priv, pub) \<longrightarrow>
      (\<exists>g k. seec_GenKeyPRPAES E r 256 = Inr g \<and> GenerateKeypair (scheme_KEM s) g = Inr k \<and>
             priv = \<lparr>priv_privateKey = k, priv_KEM = scheme_KEM s\<rparr>) \<and>
      pub = privateKey_PublicKey E priv \<and>
      pub_publicKey pub = Public (priv_privateKey priv) \<and>
      pub_KEM pub = priv_KEM priv \<and>
      pub_hash pub = blake2b_Sum256 E (publicKey_Bytes pub))"
proof (intro conjI impI)
  assume "seec_GenKeyPRPAES E r 256 = Inl e"
  then show "scheme_GenerateKeypair E s r = Panics (SeecError e)"
    by (simp add: scheme_GenerateKeypair_def)
next
  assume "seec_GenKeyPRPAES E r 256 = Inr g \<and> GenerateKeypair (scheme_KEM s) g = Inl e'"
  then show "scheme_GenerateKeypair E s r = Panics (KemError e')"
    by (simp add: scheme_GenerateKeypair_def)
next
  assume ret: "scheme_GenerateKeypair E s r = Returns (priv, pub)"
  from scheme_GenerateKeypair_Returns [OF ret]
  show "\<exists>g k. seec_GenKeyPRPAES E r 256 = Inr g \<and> GenerateKeypair (scheme_KEM s) g = Inr k \<and>
             priv = \<lparr>priv_privateKey = k, priv_KEM = scheme_KEM s\<rparr>"
    by blast
  from scheme_GenerateKeypair_Returns [OF ret]
  show pub: "pub = privateKey_PublicKey E priv"
    by blast
  from pub show "pub_publicKey pub = Public (priv_privateKey priv)"
    by (simp add: privateKey_PublicKey_def)
  from pub show "pub_KEM pub = priv_KEM priv"
    by (simp add: privateKey_PublicKey_def)
  from pub show "pub_hash pub = blake2b_Sum256 E (publicKey_Bytes pub)"
    by (simp add: privateKey_PublicKey_def publicKey_Bytes_def)
qed

theorem GenerateKeypair_panics_or_complete_witness:
  "scheme_GenerateKeypair demo_env demo_scheme [] = Panics (SeecError ''EOF'') \<and>
   scheme_GenerateKeypair demo_env demo_scheme [7] = Panics (KemError ''short read'') \<and>
   scheme_GenerateKeypair demo_env demo_scheme [7, 8, 1, 2, 9] =
     Returns (demo_priv, demo_pub\<lparr>pub_hash := 2\<rparr>) \<and>
   demo_pub\<lparr>pub_hash := 2\<rparr> = privateKey_PublicKey demo_env demo_priv"
proof -
  from GenerateKeypair_panics_or_complete [of demo_env "[]" "''EOF''" demo_scheme]
  have a: "scheme_GenerateKeypair demo_env demo_scheme [] = Panics (SeecError ''EOF'')"
    by (simp add: demo_env_sel)
  from GenerateKeypair_panics_or_complete
    [of demo_env "[7]" _ demo_scheme "[7]" "''short read''"]
  have b: "scheme_GenerateKeypair demo_env demo_scheme [7] = Panics (KemError ''short read'')"
    by (simp add: demo_env_sel demo_scheme_def demo_KEM_def)
  from GenerateKeypair_panics_or_complete
    [of demo_env "[7, 8, 1, 2, 9]" _ demo_scheme _ _ demo_priv "demo_pub\<lparr>pub_hash := 2\<rparr>"]
    demo_generate
  have c: "demo_pub\<lparr>pub_hash := 2\<rparr> = privateKey_PublicKey demo_env demo_priv"
    by simp
  from a b c demo_generate show ?thesis by simp
qed

subsection \<open>Serialising a private key\<close>

text \<open>
  C8. \<open>Bytes()\<close> of a private key returns the serialisation of its keypair when the
  keypair's \<open>MarshalBinary\<close> gives one; when \<open>MarshalBinary\<close> fails, \<open>Bytes()\<close> panics with
  that error and returns nothing, neither bytes nor an error value. So where every keypair
  that the primitive parses or generates has a serialisation, \<open>Bytes()\<close> returns for every
  private key built by \<open>PrivateKeyFromBytes\<close> or \<open>GenerateKeypair\<close>.
\<close>

theorem privateKey_Bytes_returns_or_panics:
  "(MarshalBinary (priv_privateKey p) = Inr b \<longrightarrow> privateKey_Bytes p = Returns b) \<and>
   (MarshalBinary (priv_privateKey p) = Inl e \<longrightarrow>
      privateKey_Bytes p = Panics (KemError e) \<and> (\<forall>x. privateKey_Bytes p \<noteq> Returns x)) \<and>
   (kem_keypairs_serialise (scheme_KEM s) \<and>
    (scheme_PrivateKeyFromBytes s b0 = Inr p \<or>
     (\<exists>pub. scheme_GenerateKeypair E s r = Returns (p, pub))) \<longrightarrow>
      (\<exists>x. privateKey_Bytes p = Returns x \<and> MarshalBinary (priv_privateKey p) = Inr x))"
proof (intro conjI impI)
  assume "MarshalBinary (priv_privateKey p) = Inr b"
  then show "privateKey_Bytes p = Returns b"
    by (simp add: privateKey_Bytes_def)
next
  assume "MarshalBinary (priv_privateKey p) = Inl e"
  then show "privateKey_Bytes p = Panics (KemError e)" and "\<forall>x. privateKey_Bytes p \<noteq> Returns x"
    by (simp_all add: privateKey_Bytes_def)
next
  assume a: "kem_keypairs_serialise (scheme_KEM s) \<and>
    (scheme_PrivateKeyFromBytes s b0 = Inr p \<or>
     (\<exists>pub. scheme_GenerateKeypair E s r = Returns (p, pub)))"
  then have ser: "kem_keypairs_serialise (scheme_KEM s)"
    by simp
  from a consider
      (parsed) "scheme_PrivateKeyFromBytes s b0 = Inr p"
    | (generated) pub where "scheme_GenerateKeypair E s r = Returns (p, pub)"
    by blast
  then have "\<exists>x. MarshalBinary (priv_privateKey p) = Inr x"
  proof cases
    case parsed
    then have "ParsePrivateKey (scheme_KEM s) b0 = Inr (priv_privateKey p)"
      by (auto simp: scheme_PrivateKeyFromBytes_def split: sum.splits)
    with ser show ?thesis
      unfolding kem_keypairs_serialise_def by blast
  next
    case generated
    from scheme_GenerateKeypair_Returns [OF generated]
    obtain g where "GenerateKeypair (scheme_KEM s) g = Inr (priv_privateKey p)"
      by auto
    with ser show ?thesis
      unfolding kem_keypairs_serialise_def by blast
  qed
  then show "\<exists>x. privateKey_Bytes p = Returns x \<and> MarshalBinary (priv_privateKey p) = Inr x"
    by (auto simp: privateKey_Bytes_def)
qed

lemma demo_KEM_serialises: "kem_keypairs_serialise (scheme_KEM demo_scheme)"
  by (auto simp: kem_keypairs_serialise_def demo_scheme_def demo_KEM_def split: if_splits)

theorem privateKey_Bytes_returns_or_panics_witness:
  "privateKey_Bytes demo_priv = Returns [7, 8, 1, 2] \<and>
   privateKey_Bytes broken_priv = Panics (KemError ''dropped private key'') \<and>
   kem_keypairs_serialise (scheme_KEM demo_scheme) \<and>
   scheme_PrivateKeyFromBytes demo_scheme [7, 8, 1, 2] = Inr demo_priv \<and>
   (\<exists>x. privateKey_Bytes demo_priv = Returns x)"
proof -
  have ok: "MarshalBinary (priv_privateKey demo_priv) = Inr [7, 8, 1, 2]"
    by (simp add: demo_priv_def)
  have bad: "MarshalBinary (priv_privateKey broken_priv) = Inl ''dropped private key''"
    by (simp add: broken_priv_def)
  from privateKey_Bytes_returns_or_panics
    [where p = demo_priv and b = "[7, 8, 1, 2]" and e = "[]" and s = demo_scheme
       and ?b0.0 = "[7, 8, 1, 2]" and E = demo_env and r = "[]"]
    ok demo_KEM_serialises demo_parse_priv
  have a: "privateKey_Bytes demo_priv = Returns [7, 8, 1, 2]"
    and c: "\<exists>x. privateKey_Bytes demo_priv = Returns x"
    by blast+
  from privateKey_Bytes_returns_or_panics
    [where p = broken_priv and b = "[]" and e = "''dropped private key''" and s = demo_scheme
       and ?b0.0 = "[]" and E = demo_env and r = "[]"]
    bad
  have b: "privateKey_Bytes broken_priv = Panics (KemError ''dropped private key'')"
    by blast
  from a b c demo_KEM_serialises demo_parse_priv show ?thesis by simp
qed

subsection \<open>Text form\<close>

text \<open>
  C9. \<open>UnmarshalTextPublicKey\<close> and \<open>UnmarshalTextPrivateKey\<close> decode the input with
  \<open>base64.StdEncoding\<close> first. When decoding fails they return that error and no key; the
  error is the base64 package's, and no failure of the binary path is such an error (those
  are the primitive's). When decoding gives bytes, the result is that of
  \<open>PublicKeyFromBytes\<close> and \<open>PrivateKeyFromBytes\<close> on these bytes.
\<close>

theorem UnmarshalText_decodes_then_parses:
  "(base64_StdEncoding_DecodeString E b = Inl off \<longrightarrow>
      scheme_UnmarshalTextPublicKey E s b = Inl (Base64Error off) \<and>
      scheme_UnmarshalTextPrivateKey E s b = Inl (Base64Error off)) \<and>
   (base64_StdEncoding_DecodeString E b = Inr raw \<longrightarrow>
      scheme_UnmarshalTextPublicKey E s b = scheme_PublicKeyFromBytes s raw \<and>
      scheme_UnmarshalTextPrivateKey E s b = scheme_PrivateKeyFromBytes s raw) \<and>
   (scheme_PublicKeyFromBytes s raw' = Inl err \<longrightarrow> (\<exists>m. err = KemError m) \<and> err \<noteq> Base64Error off') \<and>
   (scheme_PrivateKeyFromBytes s raw' = Inl err' \<longrightarrow> (\<exists>m. err' = KemError m) \<and> err' \<noteq> Base64Error off')"
  by (auto simp: scheme_UnmarshalTextPublicKey_def scheme_UnmarshalTextPrivateKey_def
      scheme_PublicKeyFromBytes_def scheme_PrivateKeyFromBytes_def split: sum.splits)

theorem UnmarshalText_decodes_then_parses_witness:
  "scheme_UnmarshalTextPublicKey demo_env demo_scheme [65, 200] = Inl (Base64Error 1) \<and>
   scheme_UnmarshalTextPrivateKey demo_env demo_scheme [65, 200] = Inl (Base64Error 1) \<and>
   scheme_UnmarshalTextPublicKey demo_env demo_scheme [1, 2] = Inr demo_pub \<and>
   scheme_UnmarshalTextPrivateKey demo_env demo_scheme [7, 8, 1, 2] = Inr demo_priv \<and>
   scheme_PublicKeyFromBytes demo_scheme [1] = Inl (KemError ''invalid public key size'') \<and>
   scheme_PrivateKeyFromBytes demo_scheme [1] = Inl (KemError ''invalid private key size'')"
proof -
  from UnmarshalText_decodes_then_parses [of demo_env "[65, 200]" 1 demo_scheme]
  have a: "scheme_UnmarshalTextPublicKey demo_env demo_scheme [65, 200] = Inl (Base64Error 1)"
    "scheme_UnmarshalTextPrivateKey demo_env demo_scheme [65, 200] = Inl (Base64Error 1)"
    by (simp_all add: demo_env_sel)
  from UnmarshalText_decodes_then_parses [of demo_env "[1, 2]" _ demo_scheme "[1, 2]"]
  have b: "scheme_UnmarshalTextPublicKey demo_env demo_scheme [1, 2] = Inr demo_pub"
    by (simp add: demo_env_sel demo_parse_pub)
  from UnmarshalText_decodes_then_parses [of demo_env "[7, 8, 1, 2]" _ demo_scheme "[7, 8, 1, 2]"]
  have c: "scheme_UnmarshalTextPrivateKey demo_env demo_scheme [7, 8, 1, 2] = Inr demo_priv"
    by (simp add: demo_env_sel demo_parse_priv)
  have d: "scheme_PublicKeyFromBytes demo_scheme [1] = Inl (KemError ''invalid public key size'')"
    "scheme_PrivateKeyFromBytes demo_scheme [1] = Inl (KemError ''invalid private key size'')"
    by (simp_all add: scheme_PublicKeyFromBytes_def scheme_PrivateKeyFromBytes_def
        demo_scheme_def demo_KEM_def)
  from a b c d show ?thesis by simp
qed

subsection \<open>FromBytes on a key that holds a value\<close>

text \<open>
  C10. When the primitive rejects the bytes, \<open>FromBytes\<close> returns the primitive's error
  and the key is as it was before the call. The key changes only when the primitive parses
  the bytes: then no error is returned and the parsed value replaces the one held, the
  algorithm (and a public key's stored hash) staying as they were.
\<close>

theorem FromBytes_rejected_keeps_key:
  "(ParsePublicKey (pub_KEM p) b = Inl e \<longrightarrow>
      publicKey_FromBytes b p = (Some (KemError e), p)) \<and>
   (ParsePrivateKey (priv_KEM q) b = Inl e' \<longrightarrow>
      privateKey_FromBytes b q = (Some (KemError e'), q)) \<and>
   (ParsePublicKey (pub_KEM p) b = Inr k \<longrightarrow>
      publicKey_FromBytes b p = (None, p\<lparr>pub_publicKey := k\<rparr>)) \<and>
   (ParsePrivateKey (priv_KEM q) b = Inr k' \<longrightarrow>
      privateKey_FromBytes b q = (None, q\<lparr>priv_privateKey := k'\<rparr>))"
  by (simp add: publicKey_FromBytes_def privateKey_FromBytes_def)

theorem FromBytes_rejected_keeps_key_witness:
  "publicKey_FromBytes [9] demo_pub = (Some (KemError ''invalid public key size''), demo_pub) \<and>
   privateKey_FromBytes [9] demo_priv = (Some (KemError ''invalid private key size''), demo_priv) \<and>
   publicKey_FromBytes [0, 0] demo_pub = (None, zero_pub) \<and>
   privateKey_FromBytes [0, 0, 0, 0] demo_priv = (None, zero_priv)"
proof -
  have kems: "pub_KEM demo_pub = demo_KEM" "priv_KEM demo_priv = demo_KEM"
    by (simp_all add: demo_pub_def demo_priv_def)
  have rej: "ParsePublicKey (pub_KEM demo_pub) [9] = Inl ''invalid public key size''"
    "ParsePrivateKey (priv_KEM demo_priv) [9] = Inl ''invalid private key size''"
    by (simp_all add: kems demo_KEM_def)
  have acc: "ParsePublicKey (pub_KEM demo_pub) [0, 0] = Inr \<lparr>kempub_Bytes = [0, 0]\<rparr>"
    "ParsePrivateKey (priv_KEM demo_priv) [0, 0, 0, 0] =
       Inr \<lparr>Public = \<lparr>kempub_Bytes = [0, 0]\<rparr>, MarshalBinary = Inr [0, 0, 0, 0]\<rparr>"
    by (simp_all add: kems demo_KEM_def)
  have upd: "demo_pub\<lparr>pub_publicKey := \<lparr>kempub_Bytes = [0, 0]\<rparr>\<rparr> = zero_pub"
    "demo_priv\<lparr>priv_privateKey :=
       \<lparr>Public = \<lparr>kempub_Bytes = [0, 0]\<rparr>, MarshalBinary = Inr [0, 0, 0, 0]\<rparr>\<rparr> = zero_priv"
    by (simp_all add: demo_pub_def zero_pub_def demo_priv_def zero_priv_def)
  from FromBytes_rejected_keeps_key
    [where p = demo_pub and q = demo_priv and b = "[9]"
       and e = "''invalid public key size''" and e' = "''invalid private key size''"
       and k = "\<lparr>kempub_Bytes = []\<rparr>"
       and k' = "\<lparr>Public = \<lparr>kempub_Bytes = []\<rparr>, MarshalBinary = Inr []\<rparr>"]
    rej
  have a: "publicKey_FromBytes [9] demo_pub = (Some (KemError ''invalid public key size''), demo_pub)"
    "privateKey_FromBytes [9] demo_priv = (Some (KemError ''invalid private key size''), demo_priv)"
    by blast+
  from FromBytes_rejected_keeps_key
    [where p = demo_pub and q = demo_priv and b = "[0, 0]" and e = "[]" and e' = "[]"
       and k = "\<lparr>kempub_Bytes = [0, 0]\<rparr>"
       and k' = "\<lparr>Public = \<lparr>kempub_Bytes = []\<rparr>, MarshalBinary = Inr []\<rparr>"]
    acc(1) upd(1)
  have b: "publicKey_FromBytes [0, 0] demo_pub = (None, zero_pub)"
    by simp
  from FromBytes_rejected_keeps_key
    [where p = demo_pub and q = demo_priv and b = "[0, 0, 0, 0]" and e = "[]" and e' = "[]"
       and k = "\<lparr>kempub_Bytes = []\<rparr>"
       and k' = "\<lparr>Public = \<lparr>kempub_Bytes = [0, 0]\<rparr>, MarshalBinary = Inr [0, 0, 0, 0]\<rparr>"]
    acc(2) upd(2)
  have c: "privateKey_FromBytes [0, 0, 0, 0] demo_priv = (None, zero_priv)"
    by simp
  from a b c show ?thesis by simp
qed

end
